theory Spec2Isabelle
  imports Complex_Main "HOL-Library.AList" "HOL-Library.Log_Nat"
begin

section \<open>Data model\<close>

text \<open>
  The backend of the simple VAD demo, embedded function by function. Audio samples and
  confidences are Python floats; the code only moves samples between buffers and only
  compares confidences with thresholds, so both are modelled by the real numbers the
  floats denote. Counters and durations are Python integers (\<open>int\<close>), lengths are
  \<open>nat\<close>. Where the code computes with floats (the two minimum durations in samples),
  each operation is rounded as binary64 arithmetic rounds it.
\<close>

subsection \<open>Binary64 rounding\<close>

text \<open>Rounding a real to the nearest integer, ties to the even one.\<close>

definition round_half_even :: "real \<Rightarrow> int" where
  "round_half_even y =
     (let f = \<lfloor>y\<rfloor>; d = y - real_of_int f
      in if d < 1 / 2 then f else if 1 / 2 < d then f + 1 else if even f then f else f + 1)"

definition pow2 :: "int \<Rightarrow> real" where
  "pow2 e = (if 0 \<le> e then 2 ^ nat e else 1 / 2 ^ nat (- e))"

text \<open>The exponent \<open>e\<close> with \<open>2^e \<le> |x| < 2^(e+1)\<close>, for \<open>x\<close> other than zero.\<close>

definition binary_exponent :: "real \<Rightarrow> int" where
  "binary_exponent x =
     (if 1 \<le> \<bar>x\<bar> then bitlen \<lfloor>\<bar>x\<bar>\<rfloor> - 1 else - bitlen (\<lceil>1 / \<bar>x\<bar>\<rceil> - 1))"

text \<open>
  The double nearest to \<open>x\<close> (53 significant bits, ties to even), for magnitudes in the
  normal range of binary64; sample rates and durations in milliseconds are far inside it.
  A Python float operation returns \<open>float_round\<close> of the exact result.
\<close>

definition float_round :: "real \<Rightarrow> real" where
  "float_round x =
     (if x = 0 then 0
      else (let e = binary_exponent x - 52
            in real_of_int (round_half_even (x / pow2 e)) * pow2 e))"

subsection \<open>The processor\<close>

type_synonym sample = real

text \<open>The literals \<^verbatim>\<open>'speech_start'\<close> and \<^verbatim>\<open>'speech_end'\<close>.\<close>

datatype vad_event = speech_start | speech_end

text \<open>
  The Silero model is loaded from outside the repository. The processor calls it on a
  frame and a sample rate; a call either raises or yields a confidence. The model is an
  object with state of its own (a recurrent network), so what a call returns may depend
  on the calls made on that object before: a model is a function of the frames of the
  earlier calls, oldest first, of the frame and of the sample rate. A model without
  memory ignores its first argument.
\<close>

datatype scorer_result = ScorerRaises | Confidence real

type_synonym silero_model = "sample list list \<Rightarrow> sample list \<Rightarrow> int \<Rightarrow> scorer_result"

datatype exn = Exception

text \<open>
  \<^verbatim>\<open>class SileroVADProcessor\<close> (services/vad_processor.py): its attributes, and
  \<open>model_calls\<close> for the state inside the object \<^verbatim>\<open>self.model\<close>: the frames it has been
  called with since it was loaded.
\<close>

record SileroVADProcessor =
  sample_rate :: int
  speech_threshold :: real
  silence_threshold :: real
  min_speech_duration_ms :: int
  min_silence_duration_ms :: int
  is_speaking :: bool
  speech_frames :: int
  silence_frames :: int
  frames_per_ms :: real
  model :: "silero_model option"
  model_calls :: "sample list list"

text \<open>
  \<^verbatim>\<open>SileroVADProcessor.__init__\<close>, for a \<^verbatim>\<open>load_model\<close> that succeeded with model \<open>m\<close>
  (when loading fails the constructor raises and no processor exists). Every
  construction loads a model object of its own, which has not been called yet.
  \<^verbatim>\<open>sample_rate / 1000\<close> is a float division.
\<close>

definition SileroVADProcessor_init ::
  "silero_model \<Rightarrow> int \<Rightarrow> real \<Rightarrow> real \<Rightarrow> int \<Rightarrow> int \<Rightarrow> SileroVADProcessor" where
  "SileroVADProcessor_init m sr sp_th sil_th sp_ms sil_ms =
     \<lparr> sample_rate = sr,
       speech_threshold = sp_th,
       silence_threshold = sil_th,
       min_speech_duration_ms = sp_ms,
       min_silence_duration_ms = sil_ms,
       is_speaking = False,
       speech_frames = 0,
       silence_frames = 0,
       frames_per_ms = float_round (real_of_int sr / 1000),
       model = Some m,
       model_calls = [] \<rparr>"

section \<open>Hysteresis\<close>

text \<open>
  \<^verbatim>\<open>SileroVADProcessor._apply_hysteresis(confidence, chunk_size)\<close>: the returned event and
  the processor after the call. The minimum number of samples is the float product of an
  integer, converted to float, and \<^verbatim>\<open>frames_per_ms\<close>; the integer counter is compared with
  it exactly.
\<close>

definition apply_hysteresis ::
  "SileroVADProcessor \<Rightarrow> real \<Rightarrow> int \<Rightarrow> vad_event option \<times> SileroVADProcessor" where
  "apply_hysteresis p confidence chunk_size =
     (let chunk_duration_samples = chunk_size in
      if confidence > speech_threshold p then
        (let p1 = p\<lparr> speech_frames := speech_frames p + chunk_duration_samples,
                     silence_frames := 0 \<rparr>;
             min_speech_samples =
               float_round (float_round (real_of_int (min_speech_duration_ms p1)) * frames_per_ms p1)
         in if \<not> is_speaking p1 \<and> real_of_int (speech_frames p1) \<ge> min_speech_samples
            then (Some speech_start, p1\<lparr> is_speaking := True \<rparr>)
            else (None, p1))
      else if confidence < silence_threshold p then
        (let p1 = p\<lparr> silence_frames := silence_frames p + chunk_duration_samples,
                     speech_frames := 0 \<rparr>;
             min_silence_samples =
               float_round (float_round (real_of_int (min_silence_duration_ms p1)) * frames_per_ms p1)
         in if is_speaking p1 \<and> real_of_int (silence_frames p1) \<ge> min_silence_samples
            then (Some speech_end, p1\<lparr> is_speaking := False \<rparr>)
            else (None, p1))
      else (None, p))"

text \<open>\<^verbatim>\<open>SileroVADProcessor.reset_state\<close>.\<close>

definition reset_state :: "SileroVADProcessor \<Rightarrow> SileroVADProcessor" where
  "reset_state p = p\<lparr> is_speaking := False, speech_frames := 0, silence_frames := 0 \<rparr>"

text \<open>
  Successive calls of \<^verbatim>\<open>_apply_hysteresis\<close>, one per frame \<open>(confidence, chunk_size)\<close>:
  the event of every call, in order, and the processor after the last one.
\<close>

fun hysteresis_run ::
  "SileroVADProcessor \<Rightarrow> (real \<times> int) list \<Rightarrow> vad_event option list \<times> SileroVADProcessor" where
  "hysteresis_run p [] = ([], p)"
| "hysteresis_run p ((confidence, chunk_size) # frames) =
     (case apply_hysteresis p confidence chunk_size of
        (e, p1) \<Rightarrow> (case hysteresis_run p1 frames of (es, p2) \<Rightarrow> (e # es, p2)))"

text \<open>The events that were emitted: the calls that returned \<^verbatim>\<open>None\<close> dropped.\<close>

fun emitted :: "vad_event option list \<Rightarrow> vad_event list" where
  "emitted [] = []"
| "emitted (None # es) = emitted es"
| "emitted (Some e # es) = e # emitted es"

text \<open>
  An event sequence alternates from a speaking flag \<open>b\<close>: the first event is
  \<open>speech_end\<close> when \<open>b\<close> holds and \<open>speech_start\<close> otherwise, and each event flips the flag.
\<close>

fun alternates :: "bool \<Rightarrow> vad_event list \<Rightarrow> bool" where
  "alternates b [] = True"
| "alternates b (e # es) = (e = (if b then speech_end else speech_start) \<and> alternates (\<not> b) es)"

section \<open>Resampler\<close>

text \<open>
  \<^verbatim>\<open>class AudioService\<close> (services/audio_service.py). The source's attributes are
  \<^verbatim>\<open>sample_rate\<close> and \<^verbatim>\<open>audio_buffer\<close>; the first is named \<open>input_sample_rate\<close> here,
  apart from the processor's. The attribute \<^verbatim>\<open>opus_reader\<close> is an object of the sphn
  library: what it returns for a chunk is an input of the model (\<open>append_bytes_result\<close>).
\<close>

record AudioService =
  input_sample_rate :: int
  audio_buffer :: "sample list"

definition AudioService_init :: "int \<Rightarrow> AudioService" where
  "AudioService_init sr = \<lparr> input_sample_rate = sr, audio_buffer = [] \<rparr>"

text \<open>
  \<^verbatim>\<open>np.arange(0, n, 1.5).astype(int)\<close> for a buffer length \<open>n\<close>: the \<open>ceil(n / 1.5)\<close>
  values \<open>0, 1.5, 3, 4.5, ...\<close>, each truncated. Multiples of one half are exact in
  floating point, so the \<open>k\<close>-th index is \<open>3k div 2\<close> and there are \<open>(2n + 2) div 3\<close>
  of them.
\<close>

definition arange_indices :: "nat \<Rightarrow> nat list" where
  "arange_indices n = map (\<lambda>k. (3 * k) div 2) [0 ..< (2 * n + 2) div 3]"

text \<open>
  \<^verbatim>\<open>AudioService.resample_24k_to_16k\<close>: the returned samples and the service after the
  call. Every index of \<open>arange_indices\<close> is inside the buffer (lemma
  \<open>arange_indices_in_range\<close>), so the fancy indexing never raises.
\<close>

definition resample_24k_to_16k :: "AudioService \<Rightarrow> sample list \<Rightarrow> sample list \<times> AudioService" where
  "resample_24k_to_16k a audio_24k =
     (let a1 = a\<lparr> audio_buffer := audio_buffer a @ audio_24k \<rparr> in
      if length (audio_buffer a1) \<ge> 3 then
        (let indices = arange_indices (length (audio_buffer a1));
             resampled = map (\<lambda>i. audio_buffer a1 ! i) indices;
             last_used_idx = (if length indices > 0 then last indices else 0)
         in (resampled, a1\<lparr> audio_buffer := drop last_used_idx (audio_buffer a1) \<rparr>))
      else ([], a1))"

text \<open>
  Successive calls of \<^verbatim>\<open>resample_24k_to_16k\<close>, one per sub-chunk: the outputs
  concatenated in call order, and the service after the last call.
\<close>

fun resample_chunks :: "AudioService \<Rightarrow> sample list list \<Rightarrow> sample list \<times> AudioService" where
  "resample_chunks a [] = ([], a)"
| "resample_chunks a (chunk # chunks) =
     (case resample_24k_to_16k a chunk of
        (out, a1) \<Rightarrow> (case resample_chunks a1 chunks of (outs, a2) \<Rightarrow> (out @ outs, a2)))"

text \<open>
  What \<^verbatim>\<open>self.opus_reader.append_bytes(opus_data)\<close> did with a chunk: it raised, or it
  returned an array of PCM samples (possibly empty).
\<close>

datatype append_bytes_result = AppendBytesRaises | AppendBytesReturns "sample list"

text \<open>\<^verbatim>\<open>AudioService.decode_opus\<close>: \<^verbatim>\<open>None\<close> when the reader raised or returned nothing.\<close>

definition decode_opus :: "append_bytes_result \<Rightarrow> sample list option" where
  "decode_opus opus_data =
     (case opus_data of
        AppendBytesRaises \<Rightarrow> None
      | AppendBytesReturns audio_array \<Rightarrow>
          (if length audio_array > 0 then Some audio_array else None))"

text \<open>\<^verbatim>\<open>AudioService.process_opus_chunk\<close>.\<close>

definition process_opus_chunk ::
  "AudioService \<Rightarrow> append_bytes_result \<Rightarrow> sample list option \<times> AudioService" where
  "process_opus_chunk a opus_data =
     (case decode_opus opus_data of
        None \<Rightarrow> (None, a)
      | Some audio_24k \<Rightarrow>
          (case resample_24k_to_16k a audio_24k of
             (audio_16k, a1) \<Rightarrow> (if length audio_16k > 0 then Some audio_16k else None, a1)))"

text \<open>\<^verbatim>\<open>AudioService.reset\<close>.\<close>

definition audio_service_reset :: "AudioService \<Rightarrow> AudioService" where
  "audio_service_reset a = a\<lparr> audio_buffer := [] \<rparr>"

section \<open>VAD service\<close>

text \<open>
  \<^verbatim>\<open>SileroVADProcessor.process_audio_chunk\<close>. The only call that can raise is the
  model's; the hysteresis runs after it, so a raising model leaves the speaking flag and
  the counters as they were. Raising or not, the call has been made on the model object:
  the processor that comes back, also with the exception, has the frame added to
  \<open>model_calls\<close>.
\<close>

definition process_audio_chunk ::
  "SileroVADProcessor \<Rightarrow> sample list \<Rightarrow>
     (exn \<times> SileroVADProcessor) + ((vad_event option \<times> real) \<times> SileroVADProcessor)" where
  "process_audio_chunk p audio_chunk =
     (case model p of
        None \<Rightarrow> Inr ((None, 0), p)
      | Some m \<Rightarrow>
          (let p1 = p\<lparr> model_calls := model_calls p @ [audio_chunk] \<rparr> in
           case m (model_calls p) audio_chunk (sample_rate p) of
             ScorerRaises \<Rightarrow> Inl (Exception, p1)
           | Confidence confidence \<Rightarrow>
               (case apply_hysteresis p1 confidence (int (length audio_chunk)) of
                  (event, p2) \<Rightarrow> Inr ((event, confidence), p2))))"

text \<open>\<^verbatim>\<open>class VADResult\<close> (models/messages.py).\<close>

record VADResult =
  event :: "vad_event option"
  confidence :: real

text \<open>
  \<^verbatim>\<open>class VADService\<close> (services/vad_service.py). Its attribute \<^verbatim>\<open>audio_buffer\<close> is
  named \<open>vad_buffer\<close> here, apart from the resampler's.
\<close>

record VADService =
  vad_processor :: SileroVADProcessor
  vad_buffer :: "sample list"

definition VAD_CHUNK_SIZE :: nat where
  "VAD_CHUNK_SIZE = 512"

definition VADService_init ::
  "silero_model \<Rightarrow> int \<Rightarrow> real \<Rightarrow> real \<Rightarrow> int \<Rightarrow> int \<Rightarrow> VADService" where
  "VADService_init m sr sp_th sil_th sp_ms sil_ms =
     \<lparr> vad_processor = SileroVADProcessor_init m sr sp_th sil_th sp_ms sil_ms,
       vad_buffer = [] \<rparr>"

text \<open>
  \<^verbatim>\<open>VADService.process_audio\<close>: the result and the service after the call. The buffer is
  assigned before the processor is called, so the \<^verbatim>\<open>except\<close> branch keeps the shortened
  buffer, and the model object has been called.
\<close>

definition process_audio :: "VADService \<Rightarrow> sample list \<Rightarrow> VADResult \<times> VADService" where
  "process_audio v audio_chunk =
     (let v1 = v\<lparr> vad_buffer := vad_buffer v @ audio_chunk \<rparr> in
      if length (vad_buffer v1) \<ge> VAD_CHUNK_SIZE then
        (let vad_chunk = take VAD_CHUNK_SIZE (vad_buffer v1);
             v2 = v1\<lparr> vad_buffer := drop VAD_CHUNK_SIZE (vad_buffer v1) \<rparr>
         in case process_audio_chunk (vad_processor v2) vad_chunk of
              Inl (e, p1) \<Rightarrow>
                (\<lparr> event = None, confidence = 0 \<rparr>, v2\<lparr> vad_processor := p1 \<rparr>)
            | Inr ((ev, conf), p1) \<Rightarrow>
                (\<lparr> event = ev, confidence = conf \<rparr>, v2\<lparr> vad_processor := p1 \<rparr>))
      else (\<lparr> event = None, confidence = 0 \<rparr>, v1))"

text \<open>\<^verbatim>\<open>VADService.reset\<close>.\<close>

definition vad_service_reset :: "VADService \<Rightarrow> VADService" where
  "vad_service_reset v = v\<lparr> vad_processor := reset_state (vad_processor v), vad_buffer := [] \<rparr>"

section \<open>Sessions and connections\<close>

text \<open>
  The Python float literals \<^verbatim>\<open>0.3\<close> and \<^verbatim>\<open>0.1\<close>, as the doubles they are
  (\<^verbatim>\<open>float.as_integer_ratio\<close>); \<^verbatim>\<open>0.5\<close> is exactly one half.
\<close>

definition float_0_3 :: real where
  "float_0_3 = 5404319552844595 / 18014398509481984"

definition float_0_1 :: real where
  "float_0_1 = 3602879701896397 / 36028797018963968"

text \<open>\<^verbatim>\<open>class AudioSession\<close> (services/connection_service.py).\<close>

record AudioSession =
  audio_service :: AudioService
  vad_service :: VADService

text \<open>
  \<^verbatim>\<open>AudioSession.__init__\<close>: \<^verbatim>\<open>AudioService()\<close> and \<^verbatim>\<open>VADService()\<close> with their default
  arguments, for a model \<open>m\<close> that loaded.
\<close>

definition AudioSession_init :: "silero_model \<Rightarrow> AudioSession" where
  "AudioSession_init m =
     \<lparr> audio_service = AudioService_init 24000,
       vad_service = VADService_init m 16000 (1 / 2) float_0_3 150 400 \<rparr>"

text \<open>\<^verbatim>\<open>AudioSession.reset\<close>.\<close>

definition reset :: "AudioSession \<Rightarrow> AudioSession" where
  "reset s = s\<lparr> audio_service := audio_service_reset (audio_service s),
                vad_service := vad_service_reset (vad_service s) \<rparr>"

text \<open>
  The server's messages (models/messages.py): \<open>VADEventMessage event confidence timestamp\<close>,
  \<open>VADConfidenceMessage confidence is_speaking\<close>, \<open>ResetCompleteMessage message\<close>.
\<close>

datatype server_message =
    VADEventMessage vad_event real real
  | VADConfidenceMessage real bool
  | ResetCompleteMessage string

text \<open>
  The \<^verbatim>\<open>data\<close> of an \<^verbatim>\<open>AudioChunkMessage\<close>, by what the two library calls make of it:
  \<^verbatim>\<open>base64.b64decode\<close> raises, or yields bytes that the Opus reader raises on or decodes.
\<close>

datatype audio_chunk_data = B64DecodeRaises | OpusData append_bytes_result

text \<open>
  The \<^verbatim>\<open>try\<close> block of \<^verbatim>\<open>ConnectionService.handle_audio_chunk\<close>, for the session that was
  found: the messages sent, in order, and the session after the call. \<open>now\<close> is the event
  loop's clock at the call.
\<close>

definition session_audio_chunk ::
  "AudioSession \<Rightarrow> audio_chunk_data \<Rightarrow> real \<Rightarrow> server_message list \<times> AudioSession" where
  "session_audio_chunk session data now =
     (case data of
        B64DecodeRaises \<Rightarrow> ([], session)
      | OpusData opus_data \<Rightarrow>
          (case process_opus_chunk (audio_service session) opus_data of
             (None, a1) \<Rightarrow> ([], session\<lparr> audio_service := a1 \<rparr>)
           | (Some audio_16k, a1) \<Rightarrow>
               (case process_audio (vad_service session) audio_16k of
                  (vad_result, v1) \<Rightarrow>
                    ((case event vad_result of
                        None \<Rightarrow> []
                      | Some e \<Rightarrow> [VADEventMessage e (confidence vad_result) now]) @
                     (if confidence vad_result > float_0_1
                      then [VADConfidenceMessage (confidence vad_result)
                              (is_speaking (vad_processor v1))]
                      else []),
                     session\<lparr> audio_service := a1, vad_service := v1 \<rparr>))))"

text \<open>The \<^verbatim>\<open>try\<close> block of \<^verbatim>\<open>ConnectionService.handle_reset\<close>, for the session found.\<close>

definition session_reset :: "AudioSession \<Rightarrow> server_message list \<times> AudioSession" where
  "session_reset session =
     ([ResetCompleteMessage ''VAD state reset successfully''], reset session)"

text \<open>The events among the messages sent, in order.\<close>

fun events_sent :: "server_message list \<Rightarrow> vad_event list" where
  "events_sent [] = []"
| "events_sent (VADEventMessage e c t # msgs) = e # events_sent msgs"
| "events_sent (msg # msgs) = events_sent msgs"

text \<open>The client's messages that reach a handler, each with the clock at its arrival.\<close>

datatype client_message = AudioChunkMessage audio_chunk_data | ResetMessage

definition session_step ::
  "AudioSession \<Rightarrow> client_message \<times> real \<Rightarrow> server_message list \<times> AudioSession" where
  "session_step session input =
     (case fst input of
        AudioChunkMessage data \<Rightarrow> session_audio_chunk session data (snd input)
      | ResetMessage \<Rightarrow> session_reset session)"

text \<open>One session fed a sequence of messages: what was sent for each, and the session after.\<close>

fun session_run ::
  "AudioSession \<Rightarrow> (client_message \<times> real) list \<Rightarrow> server_message list list \<times> AudioSession" where
  "session_run session [] = ([], session)"
| "session_run session (input # inputs) =
     (case session_step session input of
        (sent, s1) \<Rightarrow> (case session_run s1 inputs of (sents, s2) \<Rightarrow> (sent # sents, s2)))"

text \<open>
  \<^verbatim>\<open>class ConnectionService\<close>: the dictionary from WebSocket to session, as an association
  list with one entry per key in insertion order. A WebSocket object is named by a number.
\<close>

type_synonym websocket = nat

record ConnectionService =
  active_sessions :: "(websocket \<times> AudioSession) list"

definition ConnectionService_init :: ConnectionService where
  "ConnectionService_init = \<lparr> active_sessions = [] \<rparr>"

text \<open>\<^verbatim>\<open>ConnectionService.connect\<close>, for an accepted socket and a model that loaded.\<close>

definition connect ::
  "silero_model \<Rightarrow> ConnectionService \<Rightarrow> websocket \<Rightarrow> AudioSession \<times> ConnectionService" where
  "connect m cs ws =
     (let session = AudioSession_init m
      in (session, cs\<lparr> active_sessions := AList.update ws session (active_sessions cs) \<rparr>))"

definition disconnect :: "ConnectionService \<Rightarrow> websocket \<Rightarrow> ConnectionService" where
  "disconnect cs ws =
     (if map_of (active_sessions cs) ws \<noteq> None
      then cs\<lparr> active_sessions := AList.delete ws (active_sessions cs) \<rparr>
      else cs)"

definition connection_count :: "ConnectionService \<Rightarrow> nat" where
  "connection_count cs = length (active_sessions cs)"

definition handle_audio_chunk ::
  "ConnectionService \<Rightarrow> websocket \<Rightarrow> audio_chunk_data \<Rightarrow> real \<Rightarrow>
     server_message list \<times> ConnectionService" where
  "handle_audio_chunk cs ws data now =
     (case map_of (active_sessions cs) ws of
        None \<Rightarrow> ([], cs)
      | Some session \<Rightarrow>
          (case session_audio_chunk session data now of
             (sent, s1) \<Rightarrow>
               (sent, cs\<lparr> active_sessions := AList.update ws s1 (active_sessions cs) \<rparr>)))"

definition handle_reset ::
  "ConnectionService \<Rightarrow> websocket \<Rightarrow> server_message list \<times> ConnectionService" where
  "handle_reset cs ws =
     (case map_of (active_sessions cs) ws of
        None \<Rightarrow> ([], cs)
      | Some session \<Rightarrow>
          (case session_reset session of
             (sent, s1) \<Rightarrow>
               (sent, cs\<lparr> active_sessions := AList.update ws s1 (active_sessions cs) \<rparr>)))"

section \<open>The application: two routers\<close>

text \<open>
  api/websocket.py and api/health.py each evaluate \<^verbatim>\<open>connection_service = ConnectionService()\<close>
  at import: the process holds two instances, one per module.
\<close>

record Backend =
  websocket_connection_service :: ConnectionService
  health_connection_service :: ConnectionService

definition Backend_init :: Backend where
  "Backend_init =
     \<lparr> websocket_connection_service = ConnectionService_init,
       health_connection_service = ConnectionService_init \<rparr>"

text \<open>What happens on the \<^verbatim>\<open>/ws\<close> route, as \<^verbatim>\<open>websocket_endpoint\<close> sees it.\<close>

datatype websocket_event =
    Connects websocket silero_model
  | Receives websocket client_message real
  | Disconnects websocket

text \<open>
  \<^verbatim>\<open>websocket_endpoint\<close>, one event at a time: every branch works on the module's own
  \<^verbatim>\<open>connection_service\<close>.
\<close>

definition websocket_endpoint :: "Backend \<Rightarrow> websocket_event \<Rightarrow> server_message list \<times> Backend" where
  "websocket_endpoint b ev =
     (let cs = websocket_connection_service b in
      case ev of
        Connects ws m \<Rightarrow> ([], b\<lparr> websocket_connection_service := snd (connect m cs ws) \<rparr>)
      | Receives ws (AudioChunkMessage data) now \<Rightarrow>
          (case handle_audio_chunk cs ws data now of
             (sent, cs1) \<Rightarrow> (sent, b\<lparr> websocket_connection_service := cs1 \<rparr>))
      | Receives ws ResetMessage now \<Rightarrow>
          (case handle_reset cs ws of
             (sent, cs1) \<Rightarrow> (sent, b\<lparr> websocket_connection_service := cs1 \<rparr>))
      | Disconnects ws \<Rightarrow> ([], b\<lparr> websocket_connection_service := disconnect cs ws \<rparr>))"

fun backend_run :: "Backend \<Rightarrow> websocket_event list \<Rightarrow> Backend" where
  "backend_run b [] = b"
| "backend_run b (ev # evs) = backend_run (snd (websocket_endpoint b ev)) evs"

text \<open>The JSON objects of the health router, as association lists.\<close>

datatype json = JString string | JNumber nat

definition root :: "Backend \<Rightarrow> (string \<times> json) list" where
  "root b =
     [(''message'', JString ''Simple VAD Demo Backend''),
      (''status'', JString ''running''),
      (''active_connections'', JNumber (connection_count (health_connection_service b)))]"

definition health_check :: "Backend \<Rightarrow> (string \<times> json) list" where
  "health_check b =
     [(''status'', JString ''healthy''),
      (''active_connections'', JNumber (connection_count (health_connection_service b))),
      (''vad_model'', JString ''silero-vad'')]"

section \<open>Rounding at the values the presets use\<close>

text \<open>
  At 16000 Hz the float quotient and the float products of the presets (100, 150, 300 and
  400 ms) are exact; at other rates they need not be: for 16001 Hz and 1000 ms the float
  product lies above 16001.
\<close>

lemma float_round_values:
  "float_round 16 = 16" "float_round 100 = 100" "float_round 150 = 150"
  "float_round 300 = 300" "float_round 400 = 400" "float_round 1600 = 1600"
  "float_round 2400 = 2400" "float_round 4800 = 4800" "float_round 6400 = 6400"
  by code_simp+

lemma float_product_inexact:
  "float_round (float_round 1000 * float_round (16001 / 1000)) =
     8796642778021889 / 549755813888"
  "(16001::real) < 8796642778021889 / 549755813888"
  by code_simp+

section \<open>The hysteresis dead zone\<close>

lemma apply_hysteresis_dead_zone:
  assumes "silence_threshold p \<le> c" and "c \<le> speech_threshold p"
  shows "apply_hysteresis p c n = (None, p)"
  using assms by (simp add: apply_hysteresis_def)

lemma hysteresis_run_dead_zone:
  assumes "\<forall>f \<in> set frames. silence_threshold p \<le> fst f \<and> fst f \<le> speech_threshold p"
  shows "hysteresis_run p frames = (replicate (length frames) None, p)"
  using assms
proof (induction frames)
  case Nil
  then show ?case by simp
next
  case (Cons f frames)
  obtain c n where f: "f = (c, n)" by (cases f)
  from Cons.prems f have "apply_hysteresis p c n = (None, p)"
    by (simp add: apply_hysteresis_dead_zone)
  moreover from Cons have "hysteresis_run p frames = (replicate (length frames) None, p)"
    by simp
  ultimately show ?case using f by simp
qed

text \<open>
  C4. For every processor state and every frame whose confidence lies in the closed
  interval from the silence threshold to the speech threshold, one call of the hysteresis
  update returns no event and leaves the whole processor (the speaking flag and both run
  counters included) as it was; hence a sequence of such frames of any length returns no
  event on any frame and ends in the state it started from.
\<close>

theorem C4_dead_zone:
  "(silence_threshold p \<le> c \<and> c \<le> speech_threshold p \<longrightarrow>
      apply_hysteresis p c n = (None, p)) \<and>
   ((\<forall>f \<in> set frames. silence_threshold p \<le> fst f \<and> fst f \<le> speech_threshold p) \<longrightarrow>
      hysteresis_run p frames = (replicate (length frames) None, p) \<and>
      emitted (fst (hysteresis_run p frames)) = [] \<and>
      is_speaking (snd (hysteresis_run p frames)) = is_speaking p \<and>
      speech_frames (snd (hysteresis_run p frames)) = speech_frames p \<and>
      silence_frames (snd (hysteresis_run p frames)) = silence_frames p)"
proof -
  have no_emit: "emitted (replicate k None) = []" for k
    by (induction k) simp_all
  show ?thesis
    by (simp add: apply_hysteresis_dead_zone hysteresis_run_dead_zone no_emit)
qed

theorem C4_dead_zone_witness:
  "apply_hysteresis
     (SileroVADProcessor_init (\<lambda>calls frame sr. Confidence 0) 16000 (1 / 2) float_0_3 100 300)
     (2 / 5) 512 =
     (None, SileroVADProcessor_init (\<lambda>calls frame sr. Confidence 0) 16000 (1 / 2) float_0_3 100 300) \<and>
   hysteresis_run
     (SileroVADProcessor_init (\<lambda>calls frame sr. Confidence 0) 16000 (1 / 2) float_0_3 100 300)
     [(2 / 5, 512), (1 / 2, 512), (float_0_3, 512)] =
     ([None, None, None],
      SileroVADProcessor_init (\<lambda>calls frame sr. Confidence 0) 16000 (1 / 2) float_0_3 100 300)"
proof -
  let ?p = "SileroVADProcessor_init (\<lambda>calls frame sr. Confidence 0) 16000 (1 / 2) float_0_3 100 300"
  let ?frames = "[(2 / 5, 512), (1 / 2, 512), (float_0_3, 512)] :: (real \<times> int) list"
  have h1: "silence_threshold ?p \<le> 2 / 5 \<and> 2 / 5 \<le> speech_threshold ?p"
    by (simp add: SileroVADProcessor_init_def float_0_3_def)
  have h2: "\<forall>f \<in> set ?frames. silence_threshold ?p \<le> fst f \<and> fst f \<le> speech_threshold ?p"
    by (simp add: SileroVADProcessor_init_def float_0_3_def)
  have len: "replicate (length ?frames) (None :: vad_event option) = [None, None, None]"
    by (simp add: numeral_eq_Suc)
  from C4_dead_zone[of ?p "2 / 5" 512 ?frames] h1 h2 show ?thesis
    unfolding len by blast
qed

section \<open>Event alternation\<close>

lemma fst_hysteresis_run_Cons:
  "fst (hysteresis_run p ((c, n) # frames)) =
     fst (apply_hysteresis p c n) # fst (hysteresis_run (snd (apply_hysteresis p c n)) frames)"
  by (simp split: prod.splits)

lemma snd_hysteresis_run_Cons:
  "snd (hysteresis_run p ((c, n) # frames)) =
     snd (hysteresis_run (snd (apply_hysteresis p c n)) frames)"
  by (simp split: prod.splits)

lemma apply_hysteresis_flag:
  assumes "apply_hysteresis p c n = (e, p1)"
  shows "(e = Some speech_start \<longrightarrow> \<not> is_speaking p \<and> is_speaking p1) \<and>
         (e = Some speech_end \<longrightarrow> is_speaking p \<and> \<not> is_speaking p1) \<and>
         (e = None \<longrightarrow> is_speaking p1 = is_speaking p)"
  using assms by (auto simp: apply_hysteresis_def Let_def split: if_splits)

lemma hysteresis_run_alternates:
  "alternates (is_speaking p) (emitted (fst (hysteresis_run p frames)))"
proof (induction frames arbitrary: p)
  case Nil
  then show ?case by simp
next
  case (Cons f frames)
  obtain c n where f: "f = (c, n)" by (cases f)
  obtain e p1 where step: "apply_hysteresis p c n = (e, p1)" by (cases "apply_hysteresis p c n")
  obtain es p2 where rest: "hysteresis_run p1 frames = (es, p2)" by (cases "hysteresis_run p1 frames")
  have ih: "alternates (is_speaking p1) (emitted es)"
    using Cons.IH[of p1] rest by simp
  show ?case
  proof (cases e)
    case None
    then show ?thesis using apply_hysteresis_flag[OF step] ih f step rest by simp
  next
    case (Some ev)
    then show ?thesis using apply_hysteresis_flag[OF step] ih f step rest
      by (cases ev) auto
  qed
qed

text \<open>
  C9. A call of the hysteresis update returns \<open>speech_start\<close> only when the processor was
  not speaking, and then sets the flag; it returns \<open>speech_end\<close> only when the processor
  was speaking, and then clears the flag. So the events emitted over any sequence of
  frames alternate, beginning with the kind the starting flag allows; from a newly built
  processor the first event is \<open>speech_start\<close> and no two consecutive events are of the
  same kind.
\<close>

theorem C9_event_alternation:
  "(fst (apply_hysteresis p c n) = Some speech_start \<longrightarrow>
      \<not> is_speaking p \<and> is_speaking (snd (apply_hysteresis p c n))) \<and>
   (fst (apply_hysteresis p c n) = Some speech_end \<longrightarrow>
      is_speaking p \<and> \<not> is_speaking (snd (apply_hysteresis p c n))) \<and>
   alternates (is_speaking p) (emitted (fst (hysteresis_run p frames))) \<and>
   alternates False
     (emitted (fst (hysteresis_run (SileroVADProcessor_init m sr sp_th sil_th sp_ms sil_ms) frames)))"
proof -
  obtain e p1 where step: "apply_hysteresis p c n = (e, p1)"
    by (cases "apply_hysteresis p c n")
  have new: "is_speaking (SileroVADProcessor_init m sr sp_th sil_th sp_ms sil_ms) = False"
    by (simp add: SileroVADProcessor_init_def)
  show ?thesis
    using apply_hysteresis_flag[OF step] step
      hysteresis_run_alternates[of p frames]
      hysteresis_run_alternates[of "SileroVADProcessor_init m sr sp_th sil_th sp_ms sil_ms" frames]
    unfolding new by simp
qed

theorem C9_event_alternation_witness:
  "fst (apply_hysteresis
     (SileroVADProcessor_init (\<lambda>calls frame sr. Confidence 0) 16000 (1 / 2) float_0_3 100 300)
     (9 / 10) 1600) = Some speech_start \<and>
   is_speaking (snd (apply_hysteresis
     (SileroVADProcessor_init (\<lambda>calls frame sr. Confidence 0) 16000 (1 / 2) float_0_3 100 300)
     (9 / 10) 1600)) \<and>
   emitted (fst (hysteresis_run
     (SileroVADProcessor_init (\<lambda>calls frame sr. Confidence 0) 16000 (1 / 2) float_0_3 100 300)
     [(9 / 10, 1600), (1 / 10, 4800), (9 / 10, 1600)])) = [speech_start, speech_end, speech_start] \<and>
   alternates False (emitted (fst (hysteresis_run
     (SileroVADProcessor_init (\<lambda>calls frame sr. Confidence 0) 16000 (1 / 2) float_0_3 100 300)
     [(9 / 10, 1600), (1 / 10, 4800), (9 / 10, 1600)])))"
proof -
  let ?p = "SileroVADProcessor_init (\<lambda>calls frame sr. Confidence 0) 16000 (1 / 2) float_0_3 100 300"
  let ?frames = "[(9 / 10, 1600), (1 / 10, 4800), (9 / 10, 1600)] :: (real \<times> int) list"
  have ev: "fst (apply_hysteresis ?p (9 / 10) 1600) = Some speech_start"
    by (simp add: apply_hysteresis_def SileroVADProcessor_init_def float_round_values)
  have run: "emitted (fst (hysteresis_run ?p ?frames)) = [speech_start, speech_end, speech_start]"
    by (simp add: apply_hysteresis_def SileroVADProcessor_init_def float_0_3_def
        float_round_values)
  from C9_event_alternation[of ?p "9 / 10" 1600 ?frames "\<lambda>calls frame sr. Confidence 0" 16000 "1 / 2" float_0_3 100 300]
  show ?thesis using ev run by blast
qed

section \<open>Debounce\<close>

lemma emitted_replicate_None: "emitted (replicate k None) = []"
  by (induction k) simp_all

lemma emitted_append: "emitted (xs @ ys) = emitted xs @ emitted ys"
  by (induction xs rule: emitted.induct) simp_all

lemma hysteresis_run_speaking_speech:
  assumes "is_speaking p" and "\<forall>f \<in> set frames. speech_threshold p < fst f"
  shows "fst (hysteresis_run p frames) = replicate (length frames) None"
  using assms
proof (induction frames arbitrary: p)
  case Nil
  then show ?case by simp
next
  case (Cons f frames)
  obtain c n where f: "f = (c, n)" by (cases f)
  define p1 where "p1 = p\<lparr> speech_frames := speech_frames p + n, silence_frames := 0 \<rparr>"
  have step: "apply_hysteresis p c n = (None, p1)"
    using Cons.prems f by (simp add: apply_hysteresis_def p1_def)
  have "is_speaking p1" "speech_threshold p1 = speech_threshold p"
    using Cons.prems by (simp_all add: p1_def)
  with Cons.prems have "fst (hysteresis_run p1 frames) = replicate (length frames) None"
    by (intro Cons.IH) simp_all
  then show ?case using f step by (simp add: fst_hysteresis_run_Cons del: hysteresis_run.simps)
qed

lemma debounce_general:
  assumes "\<not> is_speaking p"
    and "real_of_int (speech_frames p) < float_round (float_round (real_of_int (min_speech_duration_ms p)) * frames_per_ms p)"
    and "float_round (float_round (real_of_int (min_speech_duration_ms p)) * frames_per_ms p)
           \<le> real_of_int (speech_frames p + int (sum_list ns))"
    and "speech_threshold p < c"
  shows "\<exists>k<length ns.
           real_of_int (speech_frames p + int (sum_list (take k ns)))
             < float_round (float_round (real_of_int (min_speech_duration_ms p)) * frames_per_ms p) \<and>
           float_round (float_round (real_of_int (min_speech_duration_ms p)) * frames_per_ms p)
             \<le> real_of_int (speech_frames p + int (sum_list (take (Suc k) ns))) \<and>
           fst (hysteresis_run p (map (\<lambda>n. (c, int n)) ns)) =
             replicate k None @ Some speech_start # replicate (length ns - Suc k) None"
  using assms
proof (induction ns arbitrary: p)
  case Nil
  then show ?case by simp
next
  case (Cons n ns)
  let ?T = "float_round (float_round (real_of_int (min_speech_duration_ms p)) * frames_per_ms p)"
  define p1 where "p1 = p\<lparr> speech_frames := speech_frames p + int n, silence_frames := 0 \<rparr>"
  show ?case
  proof (cases "?T \<le> real_of_int (speech_frames p + int n)")
    case True
    define p2 where "p2 = p1\<lparr> is_speaking := True \<rparr>"
    have step: "apply_hysteresis p c (int n) = (Some speech_start, p2)"
      using Cons.prems True by (simp add: apply_hysteresis_def p1_def p2_def)
    have "fst (hysteresis_run p2 (map (\<lambda>n. (c, int n)) ns)) = replicate (length (map (\<lambda>n. (c, int n)) ns)) None"
      using Cons.prems by (intro hysteresis_run_speaking_speech) (auto simp: p2_def p1_def)
    then have "fst (hysteresis_run p (map (\<lambda>n. (c, int n)) (n # ns))) =
        replicate 0 None @ Some speech_start # replicate (length (n # ns) - Suc 0) None"
      using step by (simp add: fst_hysteresis_run_Cons del: hysteresis_run.simps)
    moreover have "real_of_int (speech_frames p + int (sum_list (take 0 (n # ns)))) < ?T"
      using Cons.prems by simp
    moreover have "?T \<le> real_of_int (speech_frames p + int (sum_list (take (Suc 0) (n # ns))))"
      using True by simp
    ultimately show ?thesis by blast
  next
    case False
    have step: "apply_hysteresis p c (int n) = (None, p1)"
      using Cons.prems False by (simp add: apply_hysteresis_def p1_def)
    have p1: "\<not> is_speaking p1" "speech_frames p1 = speech_frames p + int n"
      "min_speech_duration_ms p1 = min_speech_duration_ms p" "frames_per_ms p1 = frames_per_ms p"
      "speech_threshold p1 = speech_threshold p"
      using Cons.prems by (simp_all add: p1_def)
    have "\<exists>k<length ns.
           real_of_int (speech_frames p1 + int (sum_list (take k ns)))
             < float_round (float_round (real_of_int (min_speech_duration_ms p1)) * frames_per_ms p1) \<and>
           float_round (float_round (real_of_int (min_speech_duration_ms p1)) * frames_per_ms p1)
             \<le> real_of_int (speech_frames p1 + int (sum_list (take (Suc k) ns))) \<and>
           fst (hysteresis_run p1 (map (\<lambda>n. (c, int n)) ns)) =
             replicate k None @ Some speech_start # replicate (length ns - Suc k) None"
      using Cons.prems False p1 by (intro Cons.IH) (simp_all add: algebra_simps)
    then obtain k where k: "k < length ns"
      "real_of_int (speech_frames p1 + int (sum_list (take k ns))) < ?T"
      "?T \<le> real_of_int (speech_frames p1 + int (sum_list (take (Suc k) ns)))"
      "fst (hysteresis_run p1 (map (\<lambda>n. (c, int n)) ns)) =
             replicate k None @ Some speech_start # replicate (length ns - Suc k) None"
      using p1 by auto
    have "Suc k < length (n # ns)" using k by simp
    moreover have "real_of_int (speech_frames p + int (sum_list (take (Suc k) (n # ns)))) < ?T"
      using k(2) p1 by (simp add: algebra_simps)
    moreover have "?T \<le> real_of_int (speech_frames p + int (sum_list (take (Suc (Suc k)) (n # ns))))"
      using k(3) p1 by (simp add: algebra_simps)
    moreover have "fst (hysteresis_run p (map (\<lambda>n. (c, int n)) (n # ns))) =
        replicate (Suc k) None @ Some speech_start # replicate (length (n # ns) - Suc (Suc k)) None"
      using step k(4) by (simp add: fst_hysteresis_run_Cons del: hysteresis_run.simps)
    ultimately show ?thesis by blast
  qed
qed

text \<open>
  C3. A processor built with speech threshold 0.5, a minimum speech duration of 100 ms and
  a sample rate of 16000 (a minimum of 1600 samples) starts silent with both counters
  zero. Fed frames that all carry one confidence above 0.5 (such as 0.9) and whose sample
  counts add up to exactly 1600, it returns \<open>speech_start\<close> on the frame at which the
  running total first reaches 1600, nothing on every earlier frame and nothing on any
  later one: exactly one event.
\<close>

theorem C3_debounce:
  assumes "sum_list ns = 1600" and "1 / 2 < c"
  shows "\<exists>k<length ns.
           sum_list (take k ns) < 1600 \<and> 1600 \<le> sum_list (take (Suc k) ns) \<and>
           fst (hysteresis_run (SileroVADProcessor_init m 16000 (1 / 2) sil_th 100 sil_ms)
                  (map (\<lambda>n. (c, int n)) ns)) =
             replicate k None @ Some speech_start # replicate (length ns - Suc k) None \<and>
           emitted (fst (hysteresis_run (SileroVADProcessor_init m 16000 (1 / 2) sil_th 100 sil_ms)
                  (map (\<lambda>n. (c, int n)) ns))) = [speech_start]"
proof -
  let ?p = "SileroVADProcessor_init m 16000 (1 / 2) sil_th 100 sil_ms"
  have T: "float_round (float_round (real_of_int (min_speech_duration_ms ?p)) * frames_per_ms ?p) = 1600"
    by (simp add: SileroVADProcessor_init_def float_round_values)
  have "\<exists>k<length ns.
           real_of_int (speech_frames ?p + int (sum_list (take k ns)))
             < float_round (float_round (real_of_int (min_speech_duration_ms ?p)) * frames_per_ms ?p) \<and>
           float_round (float_round (real_of_int (min_speech_duration_ms ?p)) * frames_per_ms ?p)
             \<le> real_of_int (speech_frames ?p + int (sum_list (take (Suc k) ns))) \<and>
           fst (hysteresis_run ?p (map (\<lambda>n. (c, int n)) ns)) =
             replicate k None @ Some speech_start # replicate (length ns - Suc k) None"
    using assms
    by (intro debounce_general) (simp_all add: SileroVADProcessor_init_def float_round_values)
  then obtain k where k: "k < length ns"
      "real_of_int (speech_frames ?p + int (sum_list (take k ns))) < 1600"
      "1600 \<le> real_of_int (speech_frames ?p + int (sum_list (take (Suc k) ns)))"
      "fst (hysteresis_run ?p (map (\<lambda>n. (c, int n)) ns)) =
             replicate k None @ Some speech_start # replicate (length ns - Suc k) None"
    unfolding T by blast
  have sf: "speech_frames ?p = 0" by (simp add: SileroVADProcessor_init_def)
  have "sum_list (take k ns) < 1600" using k(2) unfolding sf by simp
  moreover have "1600 \<le> sum_list (take (Suc k) ns)" using k(3) unfolding sf by simp
  moreover have "emitted (fst (hysteresis_run ?p (map (\<lambda>n. (c, int n)) ns))) = [speech_start]"
    unfolding k(4) by (simp add: emitted_append emitted_replicate_None)
  ultimately show ?thesis using k(1) k(4) by blast
qed

theorem C3_debounce_witness:
  "sum_list [512, 512, 512, 64] = (1600::nat) \<and> (1 / 2 < (9 / 10 :: real)) \<and>
   fst (hysteresis_run (SileroVADProcessor_init (\<lambda>calls frame sr. Confidence 0) 16000 (1 / 2) float_0_3 100 300)
          (map (\<lambda>n. (9 / 10, int n)) [512, 512, 512, 64])) = [None, None, None, Some speech_start]"
proof -
  let ?ns = "[512, 512, 512, 64::nat]"
  let ?run = "fst (hysteresis_run (SileroVADProcessor_init (\<lambda>calls frame sr. Confidence 0) 16000 (1 / 2) float_0_3 100 300)
          (map (\<lambda>n. (9 / 10, int n)) ?ns))"
  have h1: "sum_list ?ns = 1600" by simp
  have h2: "1 / 2 < (9 / 10 :: real)" by simp
  from C3_debounce[OF h1 h2, of "\<lambda>calls frame sr. Confidence 0" float_0_3 300]
  obtain k where k: "k < length ?ns" "sum_list (take k ?ns) < 1600"
     "1600 \<le> sum_list (take (Suc k) ?ns)"
     "?run = replicate k None @ Some speech_start # replicate (length ?ns - Suc k) None"
    by blast
  have "k = 0 \<or> k = 1 \<or> k = 2 \<or> k = 3" using k(1) by auto
  then have "k = 3" using k(3) by auto
  then have "?run = [None, None, None, Some speech_start]"
    using k(4) by (simp add: numeral_eq_Suc)
  then show ?thesis using h1 h2 by blast
qed

section \<open>Resampling across chunk boundaries\<close>

lemma arange_indices_in_range: "\<forall>i \<in> set (arange_indices n). i < n"
  by (auto simp: arange_indices_def)

text \<open>
  C1. The claim is that splitting a sample sequence into sub-chunks does not change the
  resampler's output. The code at the six samples 1..6: one call returns the samples at
  indices 0, 1, 3, 4; two calls of three samples each return six samples, because the
  buffer kept after the first call starts at the last index used, whose sample is
  returned again by the next call.
\<close>

theorem C1_chunking_changes_output:
  "fst (resample_chunks (AudioService_init 24000) [[1, 2, 3, 4, 5, 6]]) = [1, 2, 4, 5] \<and>
   fst (resample_chunks (AudioService_init 24000) [[1, 2, 3], [4, 5, 6]]) = [1, 2, 2, 3, 5, 6]"
proof -
  have i3: "arange_indices (Suc (Suc (Suc 0))) = [0, 1]" by code_simp
  have i5: "arange_indices (Suc (Suc (Suc (Suc (Suc 0))))) = [0, 1, 3, 4]" by code_simp
  have i6: "arange_indices (Suc (Suc (Suc (Suc (Suc (Suc 0)))))) = [0, 1, 3, 4]" by code_simp
  show ?thesis
    by (simp add: resample_24k_to_16k_def AudioService_init_def Let_def i3 i5 i6)
qed

section \<open>Frame accumulation\<close>





section \<open>Scorer failure\<close>

text \<open>
  C6. When a full frame is available and the model raises on it, \<^verbatim>\<open>process_audio\<close>
  returns the result with no event and confidence 0.0; nothing propagates. The service
  after the call is the one before it with the frame removed from the buffer and the
  frame recorded among the model's calls: the speaking flag, both counters and every
  other attribute of the processor are as before, so the next chunk is processed as
  usual.
\<close>

theorem C6_scorer_failure:
  assumes "model (vad_processor v) = Some m"
    and "VAD_CHUNK_SIZE \<le> length (vad_buffer v @ audio_chunk)"
    and "m (model_calls (vad_processor v)) (take VAD_CHUNK_SIZE (vad_buffer v @ audio_chunk))
           (sample_rate (vad_processor v)) = ScorerRaises"
  shows "process_audio v audio_chunk =
           (\<lparr> event = None, confidence = 0 \<rparr>,
            v\<lparr> vad_buffer := drop VAD_CHUNK_SIZE (vad_buffer v @ audio_chunk),
               vad_processor := (vad_processor v)
                 \<lparr> model_calls := model_calls (vad_processor v) @
                     [take VAD_CHUNK_SIZE (vad_buffer v @ audio_chunk)] \<rparr> \<rparr>) \<and>
         is_speaking (vad_processor (snd (process_audio v audio_chunk))) =
           is_speaking (vad_processor v) \<and>
         speech_frames (vad_processor (snd (process_audio v audio_chunk))) =
           speech_frames (vad_processor v) \<and>
         silence_frames (vad_processor (snd (process_audio v audio_chunk))) =
           silence_frames (vad_processor v)"
  using assms by (simp add: process_audio_def process_audio_chunk_def Let_def)

theorem C6_scorer_failure_witness:
  "process_audio (VADService_init (\<lambda>calls frame sr. ScorerRaises) 16000 (1 / 2) float_0_3 150 400)
     (replicate 512 0) =
     (\<lparr> event = None, confidence = 0 \<rparr>,
      (VADService_init (\<lambda>calls frame sr. ScorerRaises) 16000 (1 / 2) float_0_3 150 400)
        \<lparr> vad_processor :=
            (SileroVADProcessor_init (\<lambda>calls frame sr. ScorerRaises) 16000 (1 / 2) float_0_3 150 400)
              \<lparr> model_calls := [replicate 512 0] \<rparr> \<rparr>)"
proof -
  let ?m = "(\<lambda>calls frame sr. ScorerRaises) :: silero_model"
  let ?v = "VADService_init ?m 16000 (1 / 2) float_0_3 150 400"
  have h1: "model (vad_processor ?v) = Some ?m"
    by (simp add: VADService_init_def SileroVADProcessor_init_def)
  have h2: "VAD_CHUNK_SIZE \<le> length (vad_buffer ?v @ replicate 512 0)"
    by (simp add: VADService_init_def VAD_CHUNK_SIZE_def)
  have h3: "?m (model_calls (vad_processor ?v)) (take VAD_CHUNK_SIZE (vad_buffer ?v @ replicate 512 0))
              (sample_rate (vad_processor ?v)) = ScorerRaises"
    by simp
  have d: "?v\<lparr> vad_buffer := drop VAD_CHUNK_SIZE (vad_buffer ?v @ replicate 512 0),
               vad_processor := (vad_processor ?v)
                 \<lparr> model_calls := model_calls (vad_processor ?v) @
                     [take VAD_CHUNK_SIZE (vad_buffer ?v @ replicate 512 0)] \<rparr> \<rparr> =
           ?v\<lparr> vad_processor := (SileroVADProcessor_init ?m 16000 (1 / 2) float_0_3 150 400)
                 \<lparr> model_calls := [replicate 512 0] \<rparr> \<rparr>"
    by (simp add: VADService_init_def SileroVADProcessor_init_def VAD_CHUNK_SIZE_def)
  from C6_scorer_failure[OF h1 h2 h3] show ?thesis unfolding d by blast
qed

section \<open>Decode failure\<close>

text \<open>
  C7. When the Opus reader raises on a chunk or returns no samples, processing the chunk
  leaves the audio service, the session and the whole connection service as they were,
  and sends no message.
\<close>

theorem C7_decode_failure:
  assumes "opus_data = AppendBytesRaises \<or> opus_data = AppendBytesReturns []"
  shows "process_opus_chunk a opus_data = (None, a) \<and>
         session_audio_chunk session (OpusData opus_data) now = ([], session) \<and>
         handle_audio_chunk cs ws (OpusData opus_data) now = ([], cs)"
proof -
  have dec: "decode_opus opus_data = None"
    using assms by (auto simp: decode_opus_def)
  then have a: "process_opus_chunk a opus_data = (None, a)" for a
    by (simp add: process_opus_chunk_def)
  then have s: "session_audio_chunk session (OpusData opus_data) now = ([], session)" for session
    by (simp add: session_audio_chunk_def)
  have "handle_audio_chunk cs ws (OpusData opus_data) now = ([], cs)"
    by (simp add: handle_audio_chunk_def s AList.update_triv split: option.splits)
  with a s show ?thesis by blast
qed

theorem C7_decode_failure_witness:
  "handle_audio_chunk
     (snd (connect (\<lambda>calls frame sr. Confidence 0) ConnectionService_init 7)) 7
     (OpusData AppendBytesRaises) 0 =
     ([], snd (connect (\<lambda>calls frame sr. Confidence 0) ConnectionService_init 7)) \<and>
   session_audio_chunk (AudioSession_init (\<lambda>calls frame sr. Confidence 0))
     (OpusData (AppendBytesReturns [])) 0 = ([], AudioSession_init (\<lambda>calls frame sr. Confidence 0))"
proof -
  have h1: "AppendBytesRaises = AppendBytesRaises \<or> AppendBytesRaises = AppendBytesReturns []"
    by simp
  have h2: "AppendBytesReturns [] = AppendBytesRaises \<or> AppendBytesReturns [] = AppendBytesReturns []"
    by simp
  from C7_decode_failure[OF h1] C7_decode_failure[OF h2] show ?thesis by blast
qed

section \<open>Buffering calls\<close>

text \<open>
  C10. A call of \<^verbatim>\<open>process_audio\<close> whose buffer, with the new chunk appended, is still
  below 512 samples returns no event and confidence exactly 0.0; the service after it
  differs only in the buffer (the processor, and so the hysteresis state, is the same
  value, and the result does not depend on the model). Handling such a chunk sends no
  message: there is no event, and 0.0 is not above 0.1.
\<close>

theorem C10_buffering_call:
  "(length (vad_buffer v @ audio_chunk) < VAD_CHUNK_SIZE \<longrightarrow>
      process_audio v audio_chunk =
        (\<lparr> event = None, confidence = 0 \<rparr>, v\<lparr> vad_buffer := vad_buffer v @ audio_chunk \<rparr>)) \<and>
   (process_opus_chunk (audio_service s) opus_data = (Some audio_16k, a1) \<and>
    length (vad_buffer (vad_service s) @ audio_16k) < VAD_CHUNK_SIZE \<longrightarrow>
      session_audio_chunk s (OpusData opus_data) now =
        ([], s\<lparr> audio_service := a1,
               vad_service := (vad_service s)\<lparr> vad_buffer := vad_buffer (vad_service s) @ audio_16k \<rparr> \<rparr>))"
  by (simp add: process_audio_def session_audio_chunk_def Let_def float_0_1_def)

theorem C10_buffering_call_witness:
  "process_audio (VADService_init (\<lambda>calls frame sr. Confidence 1) 16000 (1 / 2) float_0_3 150 400)
     (replicate 100 0) =
     (\<lparr> event = None, confidence = 0 \<rparr>,
      (VADService_init (\<lambda>calls frame sr. Confidence 1) 16000 (1 / 2) float_0_3 150 400)
        \<lparr> vad_buffer := replicate 100 0 \<rparr>) \<and>
   fst (session_audio_chunk (AudioSession_init (\<lambda>calls frame sr. Confidence 1))
     (OpusData (AppendBytesReturns [0, 0, 0])) 0) = []"
proof -
  let ?m = "(\<lambda>calls frame sr. Confidence 1) :: silero_model"
  let ?v = "VADService_init ?m 16000 (1 / 2) float_0_3 150 400"
  let ?s = "AudioSession_init ?m"
  let ?a1 = "\<lparr> input_sample_rate = 24000, audio_buffer = [0, 0] \<rparr>"
  have i3: "arange_indices (Suc (Suc (Suc 0))) = [0, 1]" by code_simp
  have h1: "length (vad_buffer ?v @ replicate 100 0) < VAD_CHUNK_SIZE"
    by (simp add: VADService_init_def VAD_CHUNK_SIZE_def)
  have e1: "vad_buffer ?v @ replicate 100 (0::real) = replicate 100 0"
    by (simp add: VADService_init_def)
  have h2: "process_opus_chunk (audio_service ?s) (AppendBytesReturns [0, 0, 0]) = (Some [0, 0], ?a1)"
    by (simp add: process_opus_chunk_def decode_opus_def resample_24k_to_16k_def
        AudioSession_init_def AudioService_init_def Let_def i3)
  have h3: "length (vad_buffer (vad_service ?s) @ [0, 0]) < VAD_CHUNK_SIZE"
    by (simp add: AudioSession_init_def VADService_init_def VAD_CHUNK_SIZE_def)
  from C10_buffering_call[of ?v "replicate 100 0" ?s "AppendBytesReturns [0, 0, 0]" "[0, 0]" ?a1 0]
    h1 h2 h3 show ?thesis unfolding e1 by simp
qed

section \<open>Reset\<close>

lemma arange_indices_length: "length (arange_indices n) = (2 * n + 2) div 3"
  by (simp add: arange_indices_def)

lemma arange_indices_last:
  "0 < (2 * n + 2) div 3 \<Longrightarrow> last (arange_indices n) = (3 * ((2 * n + 2) div 3 - 1)) div 2"
  by (simp add: arange_indices_def last_map last_upt)

lemma map_nth_replicate:
  "\<forall>i \<in> set is. i < n \<Longrightarrow> map (\<lambda>i. replicate n x ! i) is = replicate (length is) x"
  by (induction "is") simp_all

lemma resample_constant:
  assumes "audio_buffer a = replicate b x" and "3 \<le> b + k"
  shows "resample_24k_to_16k a (replicate k x) =
           (replicate ((2 * (b + k) + 2) div 3) x,
            a\<lparr> audio_buffer :=
                 replicate (b + k - (3 * ((2 * (b + k) + 2) div 3 - 1)) div 2) x \<rparr>)"
proof -
  have buf: "audio_buffer a @ replicate k x = replicate (b + k) x"
    using assms(1) by (simp add: replicate_add)
  have pos: "0 < (2 * (b + k) + 2) div 3" using assms(2) by simp
  have out: "map (\<lambda>i. replicate (b + k) x ! i) (arange_indices (b + k)) =
               replicate ((2 * (b + k) + 2) div 3) x"
    using map_nth_replicate[OF arange_indices_in_range[of "b + k"], of x]
    by (simp add: arange_indices_length)
  have ne: "arange_indices (b + k) \<noteq> []"
    using pos arange_indices_length[of "b + k"] by auto
  show ?thesis
    using assms(2) pos out ne
    by (simp add: resample_24k_to_16k_def Let_def buf arange_indices_length arange_indices_last)
qed

lemma reset_clears_buffers_and_hysteresis:
  "audio_buffer (audio_service (reset s)) = [] \<and>
   vad_buffer (vad_service (reset s)) = [] \<and>
   is_speaking (vad_processor (vad_service (reset s))) = False \<and>
   speech_frames (vad_processor (vad_service (reset s))) = 0 \<and>
   silence_frames (vad_processor (vad_service (reset s))) = 0"
  by (simp add: reset_def audio_service_reset_def vad_service_reset_def reset_state_def)

lemma reset_keeps_model_calls:
  "model_calls (vad_processor (vad_service (reset s))) =
     model_calls (vad_processor (vad_service s))"
  by (simp add: reset_def vad_service_reset_def reset_state_def)

text \<open>
  C5. The claim is that a session after \<^verbatim>\<open>reset()\<close> behaves as a newly constructed one.
  \<^verbatim>\<open>reset()\<close> empties both buffers and clears the hysteresis state, but it leaves the
  model object as its earlier calls left it, while a new session loads a model that has
  not been called. With a model whose confidence is 1.0 on its first five calls and 0.0
  afterwards, and chunks that decode to 960 zero samples: a new session sends
  \<open>speech_start\<close> on the fifth chunk; a session that has processed one such chunk and was
  then reset sends no event on the same five chunks.
\<close>

theorem C5_reset_keeps_model_state:
  "fst (session_run
      (AudioSession_init (\<lambda>calls frame sr. Confidence (if length calls < 5 then 1 else 0)))
      [(AudioChunkMessage (OpusData (AppendBytesReturns (replicate 960 0))), 0),
       (AudioChunkMessage (OpusData (AppendBytesReturns (replicate 960 0))), 0),
       (AudioChunkMessage (OpusData (AppendBytesReturns (replicate 960 0))), 0),
       (AudioChunkMessage (OpusData (AppendBytesReturns (replicate 960 0))), 0),
       (AudioChunkMessage (OpusData (AppendBytesReturns (replicate 960 0))), 0)]) =
     [[VADConfidenceMessage 1 False], [VADConfidenceMessage 1 False],
      [VADConfidenceMessage 1 False], [VADConfidenceMessage 1 False],
      [VADEventMessage speech_start 1 0, VADConfidenceMessage 1 True]] \<and>
   fst (session_run
      (reset (snd (session_run
         (AudioSession_init (\<lambda>calls frame sr. Confidence (if length calls < 5 then 1 else 0)))
         [(AudioChunkMessage (OpusData (AppendBytesReturns (replicate 960 0))), 0)])))
      [(AudioChunkMessage (OpusData (AppendBytesReturns (replicate 960 0))), 0),
       (AudioChunkMessage (OpusData (AppendBytesReturns (replicate 960 0))), 0),
       (AudioChunkMessage (OpusData (AppendBytesReturns (replicate 960 0))), 0),
       (AudioChunkMessage (OpusData (AppendBytesReturns (replicate 960 0))), 0),
       (AudioChunkMessage (OpusData (AppendBytesReturns (replicate 960 0))), 0)]) =
     [[VADConfidenceMessage 1 False], [VADConfidenceMessage 1 False],
      [VADConfidenceMessage 1 False], [VADConfidenceMessage 1 False], []]"
proof -
  let ?F = "replicate 512 (0::real)"
  let ?m = "(\<lambda>calls frame sr. Confidence (if length calls < 5 then 1 else 0)) :: silero_model"
  let ?data = "OpusData (AppendBytesReturns (replicate 960 0))"
  define S :: "nat \<Rightarrow> nat \<Rightarrow> bool \<Rightarrow> int \<Rightarrow> int \<Rightarrow> sample list list \<Rightarrow> AudioSession"
    where "S b a sp sf silf cs =
      \<lparr> audio_service = \<lparr> input_sample_rate = 24000, audio_buffer = replicate b 0 \<rparr>,
        vad_service =
          \<lparr> vad_processor =
              \<lparr> sample_rate = 16000, speech_threshold = 1 / 2, silence_threshold = float_0_3,
                min_speech_duration_ms = 150, min_silence_duration_ms = 400,
                is_speaking = sp, speech_frames = sf, silence_frames = silf,
                frames_per_ms = 16, model = Some ?m, model_calls = cs \<rparr>,
            vad_buffer = replicate a 0 \<rparr> \<rparr>" for b a sp sf silf cs
  have init: "AudioSession_init ?m = S 0 0 False 0 0 []"
    by (simp add: S_def AudioSession_init_def AudioService_init_def VADService_init_def
        SileroVADProcessor_init_def float_round_values)
  have rst: "reset (S b a sp sf silf cs) = S 0 0 False 0 0 cs" for b a sp sf silf cs
    by (simp add: S_def reset_def audio_service_reset_def vad_service_reset_def reset_state_def)
  have opus: "process_opus_chunk (audio_service (S b a sp sf silf cs)) (AppendBytesReturns (replicate 960 0)) =
      (Some (replicate ((2 * (b + 960) + 2) div 3) 0),
       \<lparr> input_sample_rate = 24000,
         audio_buffer = replicate (b + 960 - (3 * ((2 * (b + 960) + 2) div 3 - 1)) div 2) 0 \<rparr>)"
    for b a sp sf silf cs
  proof -
    have "resample_24k_to_16k (audio_service (S b a sp sf silf cs)) (replicate 960 0) =
           (replicate ((2 * (b + 960) + 2) div 3) 0,
            (audio_service (S b a sp sf silf cs))\<lparr> audio_buffer :=
                 replicate (b + 960 - (3 * ((2 * (b + 960) + 2) div 3 - 1)) div 2) 0 \<rparr>)"
      by (rule resample_constant) (simp_all add: S_def)
    then show ?thesis
      by (simp add: process_opus_chunk_def decode_opus_def S_def)
  qed
  have speech: "session_audio_chunk (S b a False sf silf cs) ?data 0 =
      ((if 2400 \<le> sf + 512 then [VADEventMessage speech_start 1 0] else []) @
       [VADConfidenceMessage 1 (2400 \<le> sf + 512)],
       S (b + 960 - (3 * ((2 * (b + 960) + 2) div 3 - 1)) div 2)
         (a + (2 * (b + 960) + 2) div 3 - 512) (2400 \<le> sf + 512) (sf + 512) 0 (cs @ [?F]))"
    if "length cs < 5" "512 \<le> a + (2 * (b + 960) + 2) div 3" for b a sf silf cs
    using that
    by (simp add: session_audio_chunk_def opus Let_def)
       (simp add: S_def process_audio_def process_audio_chunk_def apply_hysteresis_def Let_def
          VAD_CHUNK_SIZE_def float_round_values float_0_1_def float_0_3_def
          replicate_add[symmetric] min_def)
  have silence: "session_audio_chunk (S b a False sf silf cs) ?data 0 =
      ([],
       S (b + 960 - (3 * ((2 * (b + 960) + 2) div 3 - 1)) div 2)
         (a + (2 * (b + 960) + 2) div 3 - 512) False 0 (silf + 512) (cs @ [?F]))"
    if "5 \<le> length cs" "512 \<le> a + (2 * (b + 960) + 2) div 3" for b a sf silf cs
    using that
    by (simp add: session_audio_chunk_def opus Let_def)
       (simp add: S_def process_audio_def process_audio_chunk_def apply_hysteresis_def Let_def
          VAD_CHUNK_SIZE_def float_round_values float_0_1_def float_0_3_def
          replicate_add[symmetric] min_def)
  show ?thesis
    by (simp add: init rst session_step_def speech silence)
qed

section \<open>Health endpoints\<close>

lemma websocket_endpoint_health:
  "health_connection_service (snd (websocket_endpoint b ev)) = health_connection_service b"
  by (simp add: websocket_endpoint_def Let_def
      split: websocket_event.splits client_message.splits prod.splits)

lemma backend_run_health:
  "health_connection_service (backend_run b evs) = health_connection_service b"
  by (induction evs arbitrary: b) (simp_all add: websocket_endpoint_health)

text \<open>
  C8. The claim is that the health endpoints report the number of live sessions. The
  health router reads its own \<^verbatim>\<open>ConnectionService\<close>, which no connection is ever
  registered with: after any events on the WebSocket route both endpoints report 0, and
  after one client has connected the WebSocket router's service holds one session.
\<close>

theorem C8_health_counts_other_instance:
  "map_of (health_check (backend_run Backend_init evs)) ''active_connections'' = Some (JNumber 0) \<and>
   map_of (root (backend_run Backend_init evs)) ''active_connections'' = Some (JNumber 0) \<and>
   connection_count (websocket_connection_service (backend_run Backend_init [Connects ws m])) = 1"
proof -
  have "connection_count (health_connection_service (backend_run Backend_init evs)) = 0"
    by (simp add: backend_run_health Backend_init_def connection_count_def ConnectionService_init_def)
  moreover have
    "connection_count (websocket_connection_service (backend_run Backend_init [Connects ws m])) = 1"
    by (simp add: websocket_endpoint_def connect_def Backend_init_def connection_count_def
        ConnectionService_init_def Let_def)
  ultimately show ?thesis by (simp add: health_check_def root_def)
qed

end
